theory Spec2Isabelle
  imports Complex_Main
begin

section \<open>JavaScript values\<close>

text \<open>
  The module is TypeScript: three exported functions over strings, numbers and plain
  objects. A failing operation of the language (reading a property of \<open>undefined\<close>,
  calling something that is not a function) throws a \<open>TypeError\<close>; no other error
  arises in this code, so the error type has that one constructor and every function
  that can throw returns \<open>error + 'a\<close>.
\<close>

datatype error = TypeError

text \<open>
  A Number is kept in the form in which ECMA-262 (Number::toString, radix 10) reads it:
  \<open>NaN\<close>, the two infinities, zero (either sign: both print as \<open>0\<close>), and
  \<open>Finite neg s n\<close> for the nonzero value \<open>\<plusminus> s \<times> 10\<^sup>n\<^sup>-\<^sup>k\<close>, where \<open>s\<close> is the
  shortest decimal significand that reads back to the same double, \<open>k\<close> its number of
  digits and \<open>neg\<close> the sign. So \<open>51.1\<close> is \<open>Finite False 511 2\<close>, \<open>10000\<close> is
  \<open>Finite False 1 5\<close> and \<open>1e21\<close> is \<open>Finite False 1 22\<close>.
\<close>

datatype number = NaN | PosInfinity | NegInfinity | Zero | Finite bool nat int

text \<open>
  The values that reach the functions: \<open>undefined\<close>, strings, numbers and plain
  objects (own properties in insertion order). No value of the model is callable.
\<close>

datatype jsvalue =
    Undefined
  | Str string
  | Num number
  | Obj "(string \<times> jsvalue) list"

section \<open>String primitives\<close>

text \<open>
  A string is a list of \<open>char\<close>: the characters of the URLs, colours, option names
  and decimal numbers that the functions handle are all below 256.
\<close>

text \<open>\<open>s.startsWith(p)\<close>.\<close>

definition startsWith :: "string \<Rightarrow> string \<Rightarrow> bool" where
  "startsWith s p \<longleftrightarrow> take (length p) s = p"

text \<open>\<open>s.includes(c)\<close> for a pattern of one character.\<close>

definition includes_char :: "string \<Rightarrow> char \<Rightarrow> bool" where
  "includes_char s c \<longleftrightarrow> c \<in> set s"

text \<open>
  \<open>s.split(sep)\<close> for a separator of one character: the pieces between the
  separators, empty pieces kept, so the result is never the empty array
  (\<open>"".split("/")\<close> is \<open>[""]\<close>).
\<close>

fun split :: "string \<Rightarrow> char \<Rightarrow> string list" where
  "split [] sep = [[]]"
| "split (c # cs) sep =
     (if c = sep then [] # split cs sep
      else (case split cs sep of
              w # ws \<Rightarrow> (c # w) # ws
            | [] \<Rightarrow> [[c]]))"

text \<open>
  \<open>s.replace(p, r)\<close> for a string pattern of one character: only the first occurrence
  is replaced (a string pattern is not global).
\<close>

fun replace :: "string \<Rightarrow> char \<Rightarrow> string \<Rightarrow> string" where
  "replace [] p r = []"
| "replace (c # cs) p r = (if c = p then r @ cs else c # replace cs p r)"

text \<open>\<open>xs.join(sep)\<close>.\<close>

fun join :: "string list \<Rightarrow> string \<Rightarrow> string" where
  "join [] sep = []"
| "join [x] sep = x"
| "join (x # y # ys) sep = x @ sep @ join (y # ys) sep"

text \<open>\<open>xs[i]\<close>: \<open>None\<close> is \<open>undefined\<close>, what an index out of range reads.\<close>

definition index_at :: "'a list \<Rightarrow> nat \<Rightarrow> 'a option" where
  "index_at xs i = (if i < length xs then Some (xs ! i) else None)"

section \<open>Numbers and their decimal text\<close>

definition digit_char :: "nat \<Rightarrow> char" where
  "digit_char d = char_of (48 + d)"

definition digit_val :: "char \<Rightarrow> nat" where
  "digit_val c = of_char c - 48"

definition is_digit :: "char \<Rightarrow> bool" where
  "is_digit c \<longleftrightarrow> 48 \<le> (of_char c :: nat) \<and> (of_char c :: nat) \<le> 57"

text \<open>The decimal digits of a natural number, most significant first.\<close>

fun nat_digits :: "nat \<Rightarrow> string" where
  "nat_digits n =
     (if n < 10 then [digit_char n]
      else nat_digits (n div 10) @ [digit_char (n mod 10)])"

declare nat_digits.simps [simp del]

definition digits_val :: "string \<Rightarrow> nat" where
  "digits_val ds = foldl (\<lambda>a c. 10 * a + digit_val c) 0 ds"

text \<open>
  Number::toString of a positive finite value with significand \<open>s\<close> and exponent
  \<open>n\<close>, in the four cases of ECMA-262: an integer padded with zeros, a decimal point
  inside the digits, a leading \<open>0.\<close>, and exponential notation (\<open>n > 21\<close> or
  \<open>n \<le> -6\<close>).
\<close>

definition positive_toString :: "nat \<Rightarrow> int \<Rightarrow> string" where
  "positive_toString s n =
     (let ds = nat_digits s; k = int (length ds) in
      if k \<le> n \<and> n \<le> 21 then ds @ replicate (nat (n - k)) CHR ''0''
      else if 0 < n \<and> n \<le> 21 then take (nat n) ds @ ''.'' @ drop (nat n) ds
      else if - 6 < n \<and> n \<le> 0 then ''0.'' @ replicate (nat (- n)) CHR ''0'' @ ds
      else
        let e = n - 1;
            es = (if e < 0 then ''-'' else ''+'') @ nat_digits (nat \<bar>e\<bar>)
        in if k = 1 then ds @ ''e'' @ es
           else take 1 ds @ ''.'' @ drop 1 ds @ ''e'' @ es)"

fun number_toString :: "number \<Rightarrow> string" where
  "number_toString NaN = ''NaN''"
| "number_toString PosInfinity = ''Infinity''"
| "number_toString NegInfinity = ''-Infinity''"
| "number_toString Zero = ''0''"
| "number_toString (Finite neg s n) =
     (if neg then ''-'' @ positive_toString s n else positive_toString s n)"




text \<open>
  \<open>value.toString()\<close>. On \<open>undefined\<close> the property read throws. A plain object
  inherits \<open>Object.prototype.toString\<close> unless it has an own property of that name,
  which in this model is not callable.
\<close>

fun toString :: "jsvalue \<Rightarrow> error + string" where
  "toString Undefined = Inl TypeError"
| "toString (Str s) = Inr s"
| "toString (Num x) = Inr (number_toString x)"
| "toString (Obj ps) =
     (case map_of ps ''toString'' of
        None \<Rightarrow> Inr ''[object Object]''
      | Some _ \<Rightarrow> Inl TypeError)"

text \<open>
  The white space that \<open>parseInt\<close> skips, among the characters below 256: TAB, LF, VT,
  FF, CR, SP and NBSP.
\<close>

definition is_white :: "char \<Rightarrow> bool" where
  "is_white c \<longleftrightarrow> (of_char c :: nat) \<in> {9, 10, 11, 12, 13, 32, 160}"

text \<open>
  \<open>Number.parseInt(value, 10)\<close>: leading white space is skipped, one sign is read, the
  longest run of decimal digits is the integer, and an empty run is \<open>NaN\<close>, here
  \<open>None\<close>. The result is carried as the mathematical integer: the clamp that follows
  gives the same value on it as on its nearest double, since rounding to a double is
  monotone and leaves 1 and 100 fixed.
\<close>

definition parseInt :: "string \<Rightarrow> int option" where
  "parseInt inputString =
     (let S = dropWhile is_white inputString;
          sign = (if S \<noteq> [] \<and> hd S = CHR ''-'' then - 1 else 1 :: int);
          S' = (if S \<noteq> [] \<and> (hd S = CHR ''+'' \<or> hd S = CHR ''-'') then tl S else S);
          Z = takeWhile is_digit S'
      in if Z = [] then None else Some (sign * int (digits_val Z)))"

text \<open>\<open>Math.max\<close>, \<open>Math.min\<close> and \<open>Math.round\<close> on an integral Number or \<open>NaN\<close>.\<close>

fun Math_max :: "int \<Rightarrow> int option \<Rightarrow> int option" where
  "Math_max a None = None"
| "Math_max a (Some b) = Some (max a b)"

fun Math_min :: "int \<Rightarrow> int option \<Rightarrow> int option" where
  "Math_min a None = None"
| "Math_min a (Some b) = Some (min a b)"

fun Math_round :: "int option \<Rightarrow> int option" where
  "Math_round None = None"
| "Math_round (Some b) = Some b"

text \<open>\<open>toString\<close> of an integral Number of small magnitude, or of \<open>NaN\<close>.\<close>

fun integral_toString :: "int option \<Rightarrow> string" where
  "integral_toString None = ''NaN''"
| "integral_toString (Some i) =
     (if i < 0 then ''-'' @ nat_digits (nat (- i)) else nat_digits (nat i))"

section \<open>The tables\<close>

definition optionQueryKeys :: "(string \<times> string list) list" where
  "optionQueryKeys =
     [(''backgroundColor'', [''bg'']),
      (''quality'', [''q'']),
      (''radius'', [''r'']),
      (''focusArea'', [''f'']),
      (''fit'', [''fit'']),
      (''height'', [''h'']),
      (''width'', [''w'']),
      (''format'', [''fm'', ''fl''])]"

definition backgroundColor :: "string \<Rightarrow> string" where
  "backgroundColor v = ''rgb:'' @ replace v CHR ''#'' ''''"

text \<open>The Number that the quality transformer stringifies.\<close>

definition quality_number :: "string \<Rightarrow> int option" where
  "quality_number v = Math_round (Math_min 100 (Math_max 1 (parseInt v)))"

definition quality :: "string \<Rightarrow> string" where
  "quality v = integral_toString (quality_number v)"

definition transformers :: "(string \<times> (string \<Rightarrow> string)) list" where
  "transformers = [(''backgroundColor'', backgroundColor), (''quality'', quality)]"

section \<open>getContentfulImageSrcUrl\<close>

text \<open>
  \<open>name in v\<close> throws on a value that is not an object. \<open>v.name\<close> throws on
  \<open>undefined\<close>, and reads \<open>undefined\<close> where the property is absent; a string or a
  number has none of the properties read here (\<open>fields\<close>, \<open>file\<close>, \<open>url\<close>).
\<close>

fun has_property :: "string \<Rightarrow> jsvalue \<Rightarrow> error + bool" where
  "has_property name (Obj ps) = Inr (name \<in> fst ` set ps)"
| "has_property name _ = Inl TypeError"

fun get_property :: "jsvalue \<Rightarrow> string \<Rightarrow> error + jsvalue" where
  "get_property Undefined name = Inl TypeError"
| "get_property (Obj ps) name =
     Inr (case map_of ps name of None \<Rightarrow> Undefined | Some v \<Rightarrow> v)"
| "get_property _ name = Inr Undefined"

fun get_path :: "jsvalue \<Rightarrow> string list \<Rightarrow> error + jsvalue" where
  "get_path v [] = Inr v"
| "get_path v (name # names) =
     (case get_property v name of
        Inl e \<Rightarrow> Inl e
      | Inr w \<Rightarrow> get_path w names)"

text \<open>The raw URL: the first statement of the function.\<close>

definition raw_url :: "jsvalue \<Rightarrow> error + jsvalue" where
  "raw_url src =
     (case src of
        Str s \<Rightarrow> Inr (Str s)
      | _ \<Rightarrow>
        (case has_property ''fields'' src of
           Inl e \<Rightarrow> Inl e
         | Inr True \<Rightarrow> get_path src [''fields'', ''file'', ''url'']
         | Inr False \<Rightarrow>
           (case has_property ''file'' src of
              Inl e \<Rightarrow> Inl e
            | Inr True \<Rightarrow> get_path src [''file'', ''url'']
            | Inr False \<Rightarrow> get_path src [''url''])))"

text \<open>The two rewriting statements, on a string.\<close>

definition prepend_https :: "string \<Rightarrow> string" where
  "prepend_https url = (if startsWith url ''//'' then ''https:'' @ url else url)"

definition remove_query :: "string \<Rightarrow> string" where
  "remove_query url =
     (if includes_char url CHR ''?'' then hd (split url CHR ''?'') else url)"

text \<open>
  A raw URL that is not a string has no callable \<open>startsWith\<close>: the call throws.
\<close>

definition getContentfulImageSrcUrl :: "jsvalue \<Rightarrow> error + string" where
  "getContentfulImageSrcUrl src =
     (case raw_url src of
        Inl e \<Rightarrow> Inl e
      | Inr (Str url) \<Rightarrow> Inr (remove_query (prepend_https url))
      | Inr _ \<Rightarrow> Inl TypeError)"

section \<open>getContentfulImageQuery\<close>

text \<open>
  One entry of \<open>Object.entries(options)\<close>. The value is stringified first, then
  transformed and split; \<open>queryKeys.map\<close> comes last. For a key outside the table
  \<open>optionQueryKeys[key]\<close> is \<open>undefined\<close> or a member inherited from
  \<open>Object.prototype\<close> (a function, or the prototype itself for \<open>__proto__\<close>), none
  of which has a \<open>map\<close> method: the call throws a \<open>TypeError\<close>, as does anything that
  fails before it.
\<close>

definition pair_of :: "string list \<Rightarrow> nat \<times> string \<Rightarrow> string" where
  "pair_of values p =
     (case p of (i, name) \<Rightarrow>
        (case index_at values i of
           None \<Rightarrow> ''''
         | Some v \<Rightarrow> if name = '''' \<or> v = '''' then '''' else name @ ''='' @ v))"

definition entry_pairs :: "string \<times> jsvalue \<Rightarrow> error + string list" where
  "entry_pairs entry =
     (case entry of (key, v) \<Rightarrow>
        (case toString v of
           Inl e \<Rightarrow> Inl e
         | Inr s \<Rightarrow>
           (let values =
                  split (case map_of transformers key of
                           Some transformer \<Rightarrow> transformer s
                         | None \<Rightarrow> s) CHR ''/''
            in case map_of optionQueryKeys key of
                 None \<Rightarrow> Inl TypeError
               | Some queryKeys \<Rightarrow>
                   Inr (filter (\<lambda>p. p \<noteq> '''')
                          (map (pair_of values) (enumerate 0 queryKeys))))))"

text \<open>\<open>entries.map(f)\<close> where \<open>f\<close> can throw: the first throw ends the loop.\<close>

fun map_entries :: "('a \<Rightarrow> error + 'b) \<Rightarrow> 'a list \<Rightarrow> error + 'b list" where
  "map_entries f [] = Inr []"
| "map_entries f (x # xs) =
     (case f x of
        Inl e \<Rightarrow> Inl e
      | Inr y \<Rightarrow>
        (case map_entries f xs of
           Inl e \<Rightarrow> Inl e
         | Inr ys \<Rightarrow> Inr (y # ys)))"

definition getContentfulImageQuery :: "(string \<times> jsvalue) list \<Rightarrow> error + string" where
  "getContentfulImageQuery options =
     (case map_entries entry_pairs options of
        Inl e \<Rightarrow> Inl e
      | Inr pairs \<Rightarrow> Inr (join (concat pairs) ''&''))"

section \<open>contentfulImage\<close>

text \<open>
  The options parameter has the default \<open>{}\<close>: \<open>None\<close> is the call with one argument.
\<close>

definition contentfulImage :: "jsvalue \<Rightarrow> (string \<times> jsvalue) list option \<Rightarrow> error + string" where
  "contentfulImage src options =
     (case getContentfulImageSrcUrl src of
        Inl e \<Rightarrow> Inl e
      | Inr url \<Rightarrow>
        (case getContentfulImageQuery (case options of None \<Rightarrow> [] | Some os \<Rightarrow> os) of
           Inl e \<Rightarrow> Inl e
         | Inr query \<Rightarrow> Inr (url @ (if query \<noteq> '''' then ''?'' @ query else ''''))))"

section \<open>Auxiliary notions for the proofs\<close>



section \<open>Strings, digits and parsing\<close>

lemma split_not_Nil: "split s c \<noteq> []"
  by (induction s) (auto split: list.splits)

lemma hd_split: "hd (split s c) = takeWhile (\<lambda>x. x \<noteq> c) s"
  by (induction s) (auto split: list.splits simp: split_not_Nil)

lemma replace_empty: "replace v c [] = remove1 c v"
  by (induction v) auto

lemma remove1_filter: "length (filter (\<lambda>x. x = c) v) \<le> 1 \<Longrightarrow> remove1 c v = filter (\<lambda>x. x \<noteq> c) v"
proof (induction v)
  case Nil
  then show ?case by simp
next
  case (Cons a v)
  show ?case
  proof (cases "a = c")
    case True
    with Cons.prems have "filter (\<lambda>x. x = c) v = []" by simp
    then have "c \<notin> set v" by (auto simp: filter_empty_conv)
    then have "filter (\<lambda>x. x \<noteq> c) v = v" by (auto simp: filter_id_conv)
    with True show ?thesis by simp
  next
    case False
    with Cons show ?thesis by simp
  qed
qed




























section \<open>The background colour and unrecognized options\<close>

lemma replace_first: "replace v c [] = takeWhile (\<lambda>x. x \<noteq> c) v @ tl (dropWhile (\<lambda>x. x \<noteq> c) v)"
  by (induction v) auto

lemma filter_at_most_one:
  "length (filter (\<lambda>x. x = c) v) \<le> 1 \<Longrightarrow> replace v c [] = filter (\<lambda>x. x \<noteq> c) v"
  by (simp add: replace_empty remove1_filter)

text \<open>
  Claim C1, as amended. The transformer removes the first \<open>#\<close> of the value, and only
  that one, and prepends \<open>rgb:\<close>. For a value with at most one \<open>#\<close> the result is
  \<open>rgb:\<close> followed by the value without any \<open>#\<close>; so \<open>#123123\<close> gives
  \<open>rgb:123123\<close> and \<open>abcabc\<close> gives \<open>rgb:abcabc\<close>.
\<close>

theorem backgroundColor_first_hash:
  "backgroundColor v =
     ''rgb:'' @ takeWhile (\<lambda>c. c \<noteq> CHR ''#'') v @ tl (dropWhile (\<lambda>c. c \<noteq> CHR ''#'') v)
   \<and> (length (filter (\<lambda>c. c = CHR ''#'') v) \<le> 1 \<longrightarrow>
        backgroundColor v = ''rgb:'' @ filter (\<lambda>c. c \<noteq> CHR ''#'') v)
   \<and> backgroundColor ''#123123'' = ''rgb:123123''
   \<and> backgroundColor ''abcabc'' = ''rgb:abcabc''"
  by (simp add: backgroundColor_def replace_first[symmetric] filter_at_most_one)

text \<open>
  The hypothesis of at most one \<open>#\<close> holds at \<open>#ffff22\<close>.
\<close>

theorem backgroundColor_first_hash_witness:
  "length (filter (\<lambda>c. c = CHR ''#'') ''#ffff22'') \<le> 1
   \<and> backgroundColor ''#ffff22'' = ''rgb:ffff22''"
  using backgroundColor_first_hash [of "''#ffff22''"] by simp

text \<open>
  Claim C1 as stated fails where the value has two \<open>#\<close>: the second one stays.
\<close>

theorem backgroundColor_second_hash_kept:
  "backgroundColor ''#12#3'' = ''rgb:12#3'' \<and> CHR ''#'' \<in> set (backgroundColor ''#12#3'')"
  by (simp add: backgroundColor_def)

lemma map_entries_throws:
  "x \<in> set xs \<Longrightarrow> f x = Inl TypeError \<Longrightarrow> map_entries f xs = Inl TypeError"
proof (induction xs)
  case Nil
  then show ?case by simp
next
  case (Cons a xs)
  have e: "\<And>e :: error. e = TypeError" by (case_tac e) simp
  show ?case
  proof (cases "f a")
    case (Inl e')
    then show ?thesis using e[of e'] by simp
  next
    case (Inr y)
    with Cons have "map_entries f xs = Inl TypeError" by auto
    with Inr show ?thesis by simp
  qed
qed

lemma optionQueryKeys_None:
  "key \<notin> {''backgroundColor'', ''quality'', ''radius'', ''focusArea'', ''fit'', ''height'',
            ''width'', ''format''} \<Longrightarrow> map_of optionQueryKeys key = None"
  by (simp add: optionQueryKeys_def)

lemma entry_pairs_unrecognized:
  "map_of optionQueryKeys key = None \<Longrightarrow> entry_pairs (key, v) = Inl TypeError"
proof (cases "toString v")
  case (Inl e)
  then show ?thesis by (cases e) (simp add: entry_pairs_def)
next
  case (Inr s)
  assume "map_of optionQueryKeys key = None"
  with Inr show ?thesis by (simp add: entry_pairs_def Let_def)
qed

text \<open>
  Claim C2, as amended. An options object with an entry whose name is not one of the
  eight option names is not built into a query: the call throws a \<open>TypeError\<close>, whatever
  the other entries are.
\<close>

theorem unrecognized_option_throws:
  assumes "(key, v) \<in> set options"
    and "key \<notin> {''backgroundColor'', ''quality'', ''radius'', ''focusArea'', ''fit'',
                  ''height'', ''width'', ''format''}"
  shows "getContentfulImageQuery options = Inl TypeError"
proof -
  from assms(2) have "entry_pairs (key, v) = Inl TypeError"
    by (intro entry_pairs_unrecognized optionQueryKeys_None)
  with assms(1) have "map_entries entry_pairs options = Inl TypeError"
    by (rule map_entries_throws)
  then show ?thesis by (simp add: getContentfulImageQuery_def)
qed

text \<open>
  The hypotheses hold for the entry \<open>foo\<close> next to a \<open>width\<close>.
\<close>

theorem unrecognized_option_throws_witness:
  "(''foo'', Str ''x'') \<in> set [(''width'', Num (Finite False 123 3)), (''foo'', Str ''x'')]
   \<and> ''foo'' \<notin> {''backgroundColor'', ''quality'', ''radius'', ''focusArea'', ''fit'',
                  ''height'', ''width'', ''format''}
   \<and> getContentfulImageQuery [(''width'', Num (Finite False 123 3)), (''foo'', Str ''x'')]
       = Inl TypeError"
  using unrecognized_option_throws
    [of "''foo''" "Str ''x''" "[(''width'', Num (Finite False 123 3)), (''foo'', Str ''x'')]"]
  by simp

text \<open>
  Claim C2 as stated fails there: the query of the recognized entry alone is \<open>w=123\<close>,
  and with the entry \<open>foo\<close> added nothing is returned.
\<close>

theorem unrecognized_option_not_ignored:
  "getContentfulImageQuery [(''width'', Num (Finite False 123 3)), (''foo'', Str ''x'')]
     = Inl TypeError
   \<and> getContentfulImageQuery [(''width'', Num (Finite False 123 3))] = Inr ''w=123''"
  by code_simp

section \<open>The quality transformer\<close>

















section \<open>The source URL, the composed URL and the query\<close>

lemma takeWhile_no_query:
  "CHR ''?'' \<notin> set p \<Longrightarrow> takeWhile (\<lambda>c. c \<noteq> CHR ''?'') p = p"
  by (induction p) auto

lemma remove_query_takeWhile: "remove_query url = takeWhile (\<lambda>c. c \<noteq> CHR ''?'') url"
proof (cases "CHR ''?'' \<in> set url")
  case True
  then show ?thesis by (simp add: remove_query_def includes_char_def hd_split)
next
  case False
  then show ?thesis
    by (simp add: remove_query_def includes_char_def takeWhile_no_query del: takeWhile_eq_all_conv)
qed

lemma resolve_string:
  "getContentfulImageSrcUrl (Str x) = Inr (takeWhile (\<lambda>c. c \<noteq> CHR ''?'') (prepend_https x))"
  by (simp add: getContentfulImageSrcUrl_def raw_url_def remove_query_takeWhile)

lemma resolve_raw:
  "raw_url src = Inr (Str u) \<Longrightarrow> getContentfulImageSrcUrl src = getContentfulImageSrcUrl (Str u)"
  by (simp add: getContentfulImageSrcUrl_def raw_url_def)

lemma raw_url_fields:
  assumes "map_of ps ''fields'' = Some (Obj fs)" "map_of fs ''file'' = Some (Obj fl)"
    "map_of fl ''url'' = Some v"
  shows "raw_url (Obj ps) = Inr v"
proof -
  from assms(1) have "(''fields'', Obj fs) \<in> set ps" by (rule map_of_SomeD)
  then have "''fields'' \<in> fst ` set ps" by force
  with assms show ?thesis by (simp add: raw_url_def)
qed

lemma raw_url_file:
  assumes "''fields'' \<notin> fst ` set ps" "map_of ps ''file'' = Some (Obj fl)"
    "map_of fl ''url'' = Some v"
  shows "raw_url (Obj ps) = Inr v"
proof -
  from assms(2) have "(''file'', Obj fl) \<in> set ps" by (rule map_of_SomeD)
  then have "''file'' \<in> fst ` set ps" by force
  with assms show ?thesis by (simp add: raw_url_def)
qed

lemma raw_url_url:
  assumes "''fields'' \<notin> fst ` set ps" "''file'' \<notin> fst ` set ps" "map_of ps ''url'' = Some v"
  shows "raw_url (Obj ps) = Inr v"
  using assms by (simp add: raw_url_def)

text \<open>
  Claim C5. For every string \<open>u\<close> the four shapes \<open>u\<close>, \<open>{url: u}\<close>,
  \<open>{file: {url: u}}\<close> and \<open>{fields: {file: {url: u}}}\<close> resolve to the same result. In an
  object with several of the properties, \<open>fields.file.url\<close> is read when \<open>fields\<close> is
  present, else \<open>file.url\<close> when \<open>file\<close> is present, else \<open>url\<close>.
\<close>

theorem shape_invariance_and_precedence:
  "getContentfulImageSrcUrl (Obj [(''url'', Str u)]) = getContentfulImageSrcUrl (Str u)
   \<and> getContentfulImageSrcUrl (Obj [(''file'', Obj [(''url'', Str u)])])
       = getContentfulImageSrcUrl (Str u)
   \<and> getContentfulImageSrcUrl (Obj [(''fields'', Obj [(''file'', Obj [(''url'', Str u)])])])
       = getContentfulImageSrcUrl (Str u)
   \<and> (map_of ps ''fields'' = Some (Obj fs) \<and> map_of fs ''file'' = Some (Obj fl)
        \<and> map_of fl ''url'' = Some (Str u) \<longrightarrow>
      getContentfulImageSrcUrl (Obj ps) = getContentfulImageSrcUrl (Str u))
   \<and> (''fields'' \<notin> fst ` set ps \<and> map_of ps ''file'' = Some (Obj fl)
        \<and> map_of fl ''url'' = Some (Str u) \<longrightarrow>
      getContentfulImageSrcUrl (Obj ps) = getContentfulImageSrcUrl (Str u))
   \<and> (''fields'' \<notin> fst ` set ps \<and> ''file'' \<notin> fst ` set ps
        \<and> map_of ps ''url'' = Some (Str u) \<longrightarrow>
      getContentfulImageSrcUrl (Obj ps) = getContentfulImageSrcUrl (Str u))"
proof -
  have "raw_url (Obj [(''url'', Str u)]) = Inr (Str u)"
    and "raw_url (Obj [(''file'', Obj [(''url'', Str u)])]) = Inr (Str u)"
    and "raw_url (Obj [(''fields'', Obj [(''file'', Obj [(''url'', Str u)])])]) = Inr (Str u)"
    by (simp_all add: raw_url_def)
  then have shapes:
    "getContentfulImageSrcUrl (Obj [(''url'', Str u)]) = getContentfulImageSrcUrl (Str u)"
    "getContentfulImageSrcUrl (Obj [(''file'', Obj [(''url'', Str u)])])
       = getContentfulImageSrcUrl (Str u)"
    "getContentfulImageSrcUrl (Obj [(''fields'', Obj [(''file'', Obj [(''url'', Str u)])])])
       = getContentfulImageSrcUrl (Str u)"
    by (simp_all add: resolve_raw)
  have by_fields: "map_of ps ''fields'' = Some (Obj fs) \<and> map_of fs ''file'' = Some (Obj fl)
        \<and> map_of fl ''url'' = Some (Str u) \<longrightarrow>
      getContentfulImageSrcUrl (Obj ps) = getContentfulImageSrcUrl (Str u)"
    using raw_url_fields[of ps fs fl "Str u"] by (simp add: resolve_raw)
  have by_file: "''fields'' \<notin> fst ` set ps \<and> map_of ps ''file'' = Some (Obj fl)
        \<and> map_of fl ''url'' = Some (Str u) \<longrightarrow>
      getContentfulImageSrcUrl (Obj ps) = getContentfulImageSrcUrl (Str u)"
    using raw_url_file[of ps fl "Str u"] by (simp add: resolve_raw)
  have by_url: "''fields'' \<notin> fst ` set ps \<and> ''file'' \<notin> fst ` set ps
        \<and> map_of ps ''url'' = Some (Str u) \<longrightarrow>
      getContentfulImageSrcUrl (Obj ps) = getContentfulImageSrcUrl (Str u)"
    using raw_url_url[of ps "Str u"] by (simp add: resolve_raw)
  from shapes by_fields by_file by_url show ?thesis by blast
qed

text \<open>
  The three precedence cases at objects that have the properties of several shapes.
\<close>

theorem shape_invariance_and_precedence_witness:
  "getContentfulImageSrcUrl
     (Obj [(''url'', Str ''//c''),
           (''file'', Obj [(''url'', Str ''//b'')]),
           (''fields'', Obj [(''file'', Obj [(''url'', Str ''//a'')])])]) = Inr ''https://a''
   \<and> getContentfulImageSrcUrl
     (Obj [(''url'', Str ''//c''), (''file'', Obj [(''url'', Str ''//b'')])]) = Inr ''https://b''
   \<and> getContentfulImageSrcUrl (Obj [(''url'', Str ''//c'')]) = Inr ''https://c''"
proof -
  have s: "getContentfulImageSrcUrl (Str ''//a'') = Inr ''https://a''"
    "getContentfulImageSrcUrl (Str ''//b'') = Inr ''https://b''"
    "getContentfulImageSrcUrl (Str ''//c'') = Inr ''https://c''"
    by code_simp+
  from shape_invariance_and_precedence
    [of "''//a''"
        "[(''url'', Str ''//c''), (''file'', Obj [(''url'', Str ''//b'')]),
          (''fields'', Obj [(''file'', Obj [(''url'', Str ''//a'')])])]"
        "[(''file'', Obj [(''url'', Str ''//a'')])]" "[(''url'', Str ''//a'')]"]
  have a: "getContentfulImageSrcUrl
     (Obj [(''url'', Str ''//c''), (''file'', Obj [(''url'', Str ''//b'')]),
          (''fields'', Obj [(''file'', Obj [(''url'', Str ''//a'')])])])
     = getContentfulImageSrcUrl (Str ''//a'')"
    by simp
  from shape_invariance_and_precedence
    [of "''//b''" "[(''url'', Str ''//c''), (''file'', Obj [(''url'', Str ''//b'')])]"
        "[]" "[(''url'', Str ''//b'')]"]
  have b: "getContentfulImageSrcUrl
     (Obj [(''url'', Str ''//c''), (''file'', Obj [(''url'', Str ''//b'')])])
     = getContentfulImageSrcUrl (Str ''//b'')"
    by simp
  from shape_invariance_and_precedence [of "''//c''" "[(''url'', Str ''//c'')]" "[]" "[]"]
  have c: "getContentfulImageSrcUrl (Obj [(''url'', Str ''//c'')])
     = getContentfulImageSrcUrl (Str ''//c'')"
    by simp
  from a b c s show ?thesis by simp
qed

lemma startsWith_slashes_query:
  "CHR ''?'' \<notin> set u \<Longrightarrow> startsWith (u @ CHR ''?'' # s) ''//'' = startsWith u ''//''"
proof (cases u)
  case Nil
  then show ?thesis by (simp add: startsWith_def)
next
  case (Cons a v)
  assume "CHR ''?'' \<notin> set u"
  with Cons show ?thesis by (cases v) (auto simp: startsWith_def)
qed

lemma takeWhile_before_query:
  "CHR ''?'' \<notin> set p \<Longrightarrow> takeWhile (\<lambda>c. c \<noteq> CHR ''?'') (p @ CHR ''?'' # s) = p"
  by (induction p) auto

text \<open>
  Claim C6. For \<open>u\<close> without \<open>?\<close> and any \<open>s\<close>, resolving \<open>u + "?" + s\<close> gives what
  resolving \<open>u\<close> gives, which is \<open>u\<close> with its scheme completed; and for any string the
  result is the part before the first \<open>?\<close>.
\<close>

theorem query_stripped:
  assumes "CHR ''?'' \<notin> set u"
  shows "getContentfulImageSrcUrl (Str (u @ ''?'' @ s)) = getContentfulImageSrcUrl (Str u)
    \<and> getContentfulImageSrcUrl (Str u) = Inr (prepend_https u)
    \<and> getContentfulImageSrcUrl (Str x) = Inr (takeWhile (\<lambda>c. c \<noteq> CHR ''?'') (prepend_https x))"
proof -
  have p: "CHR ''?'' \<notin> set (prepend_https u)"
    using assms by (simp add: prepend_https_def)
  have "prepend_https (u @ ''?'' @ s) = prepend_https u @ ''?'' @ s"
    using assms by (simp add: prepend_https_def startsWith_slashes_query)
  then have a: "takeWhile (\<lambda>c. c \<noteq> CHR ''?'') (prepend_https (u @ ''?'' @ s)) = prepend_https u"
    using takeWhile_before_query[OF p] by simp
  have b: "takeWhile (\<lambda>c. c \<noteq> CHR ''?'') (prepend_https u) = prepend_https u"
    using p by (rule takeWhile_no_query)
  show ?thesis unfolding resolve_string a b by simp
qed

text \<open>
  The hypothesis holds at \<open>//a.b.c/img\<close>, followed by a query with a second \<open>?\<close>.
\<close>

theorem query_stripped_witness:
  "CHR ''?'' \<notin> set ''//a.b.c/img''
   \<and> getContentfulImageSrcUrl (Str ''//a.b.c/img?a=b?c'') = Inr ''https://a.b.c/img''
   \<and> getContentfulImageSrcUrl (Str ''//a.b.c/img'') = Inr ''https://a.b.c/img''"
proof -
  have h: "CHR ''?'' \<notin> set ''//a.b.c/img''" by simp
  have "prepend_https ''//a.b.c/img'' = ''https://a.b.c/img''"
    by (simp add: prepend_https_def startsWith_def)
  with query_stripped [OF h, of "''a=b?c''" "''''"] h show ?thesis by simp
qed

text \<open>
  Claim C7. The result starts with an added \<open>https:\<close> exactly when the raw URL starts
  with \<open>//\<close>; otherwise it is the raw URL up to its first \<open>?\<close>, its start unchanged.
  \<open>contentfulImage("//a.b.c/img?a=b")\<close> is \<open>https://a.b.c/img\<close>.
\<close>

theorem https_iff_protocol_relative:
  "(startsWith x ''//'' \<longrightarrow>
      getContentfulImageSrcUrl (Str x) = Inr (''https:'' @ takeWhile (\<lambda>c. c \<noteq> CHR ''?'') x))
   \<and> (\<not> startsWith x ''//'' \<longrightarrow>
      getContentfulImageSrcUrl (Str x) = Inr (takeWhile (\<lambda>c. c \<noteq> CHR ''?'') x))
   \<and> (getContentfulImageSrcUrl (Str x) = Inr (''https:'' @ takeWhile (\<lambda>c. c \<noteq> CHR ''?'') x)
        \<longleftrightarrow> startsWith x ''//'')
   \<and> contentfulImage (Str ''//a.b.c/img?a=b'') None = Inr ''https://a.b.c/img''"
proof -
  have "contentfulImage (Str ''//a.b.c/img?a=b'') None = Inr ''https://a.b.c/img''"
    by code_simp
  then show ?thesis by (simp add: resolve_string prepend_https_def)
qed

text \<open>
  Both hypotheses are met: a URL that starts with \<open>//\<close>, and one with \<open>//\<close> further in.
\<close>

theorem https_iff_protocol_relative_witness:
  "startsWith ''//a.b.c/img?a=b'' ''//''
   \<and> getContentfulImageSrcUrl (Str ''//a.b.c/img?a=b'') = Inr ''https://a.b.c/img''
   \<and> \<not> startsWith ''/a//b?c'' ''//''
   \<and> getContentfulImageSrcUrl (Str ''/a//b?c'') = Inr ''/a//b''"
  using https_iff_protocol_relative [of "''//a.b.c/img?a=b''"]
    https_iff_protocol_relative [of "''/a//b?c''"]
  by (simp add: startsWith_def)

lemma empty_options_query: "getContentfulImageQuery [] = Inr ''''"
  by (simp add: getContentfulImageQuery_def)

text \<open>
  Claim C8. With no options the result is the resolved URL, with no \<open>?\<close> added. With
  options, where the URL resolves and the query is built, the result is the URL alone
  when the query is empty and the URL, \<open>?\<close> and the query otherwise; where either one
  throws, so does the call.
\<close>

theorem compose_url_and_query:
  "contentfulImage src None = getContentfulImageSrcUrl src
   \<and> (getContentfulImageSrcUrl src = Inr url \<and> getContentfulImageQuery opts = Inr query \<longrightarrow>
        contentfulImage src (Some opts) = Inr (if query = '''' then url else url @ ''?'' @ query))
   \<and> (getContentfulImageSrcUrl src = Inl e \<or> getContentfulImageQuery opts = Inl e \<longrightarrow>
        contentfulImage src (Some opts) = Inl TypeError)"
proof -
  have e: "\<And>e :: error. e = TypeError" by (case_tac e) simp
  have "contentfulImage src None = getContentfulImageSrcUrl src"
    by (simp add: contentfulImage_def empty_options_query split: sum.splits)
  moreover have "getContentfulImageSrcUrl src = Inr url \<and> getContentfulImageQuery opts = Inr query
      \<longrightarrow> contentfulImage src (Some opts) = Inr (if query = '''' then url else url @ ''?'' @ query)"
    by (simp add: contentfulImage_def)
  moreover have "getContentfulImageSrcUrl src = Inl e \<or> getContentfulImageQuery opts = Inl e
      \<longrightarrow> contentfulImage src (Some opts) = Inl TypeError"
    using e by (auto simp: contentfulImage_def split: sum.splits)
  ultimately show ?thesis by blast
qed

text \<open>
  The hypotheses are met with a query of two pairs, with the empty options object, and
  with an option whose value is \<open>undefined\<close>.
\<close>

theorem compose_url_and_query_witness:
  "getContentfulImageSrcUrl (Str ''https://a.b.c/'') = Inr ''https://a.b.c/''
   \<and> getContentfulImageQuery
        [(''width'', Num (Finite False 123 3)), (''height'', Num (Finite False 456 3))]
       = Inr ''w=123&h=456''
   \<and> contentfulImage (Str ''https://a.b.c/'')
        (Some [(''width'', Num (Finite False 123 3)), (''height'', Num (Finite False 456 3))])
       = Inr ''https://a.b.c/?w=123&h=456''
   \<and> getContentfulImageQuery [] = Inr ''''
   \<and> contentfulImage (Str ''https://a.b.c/'') (Some []) = Inr ''https://a.b.c/''
   \<and> getContentfulImageQuery [(''width'', Undefined)] = Inl TypeError
   \<and> contentfulImage (Str ''https://a.b.c/'') (Some [(''width'', Undefined)]) = Inl TypeError"
proof -
  have u: "getContentfulImageSrcUrl (Str ''https://a.b.c/'') = Inr ''https://a.b.c/''"
    by code_simp
  have q: "getContentfulImageQuery
        [(''width'', Num (Finite False 123 3)), (''height'', Num (Finite False 456 3))]
       = Inr ''w=123&h=456''"
    by code_simp
  have z: "getContentfulImageQuery [] = Inr ''''" by code_simp
  have t: "getContentfulImageQuery [(''width'', Undefined)] = Inl TypeError" by code_simp
  from u q z t
    compose_url_and_query [of "Str ''https://a.b.c/''" "''https://a.b.c/''"
      "[(''width'', Num (Finite False 123 3)), (''height'', Num (Finite False 456 3))]"
      "''w=123&h=456''" TypeError]
    compose_url_and_query [of "Str ''https://a.b.c/''" "''https://a.b.c/''" "[]" "''''" TypeError]
    compose_url_and_query [of "Str ''https://a.b.c/''" "''https://a.b.c/''"
      "[(''width'', Undefined)]" "''''" TypeError]
  show ?thesis by simp
qed

text \<open>
  Claim C9. The value of \<open>format\<close> is split at \<open>/\<close>; the first piece goes to \<open>fm\<close>, the
  second to \<open>fl\<close>, and a piece that is missing or empty gives no pair. So \<open>png/png8\<close>
  gives \<open>fm=png&fl=png8\<close> and \<open>png\<close> gives \<open>fm=png\<close>.
\<close>

theorem format_fan_out:
  "getContentfulImageQuery [(''format'', Str v)] =
     Inr (join
       ((case index_at (split v CHR ''/'') 0 of
           None \<Rightarrow> []
         | Some a \<Rightarrow> if a = '''' then [] else [''fm='' @ a])
        @ (case index_at (split v CHR ''/'') 1 of
           None \<Rightarrow> []
         | Some b \<Rightarrow> if b = '''' then [] else [''fl='' @ b])) ''&'')
   \<and> getContentfulImageQuery [(''format'', Str ''png/png8'')] = Inr ''fm=png&fl=png8''
   \<and> getContentfulImageQuery [(''format'', Str ''png'')] = Inr ''fm=png''"
proof -
  have "getContentfulImageQuery [(''format'', Str ''png/png8'')] = Inr ''fm=png&fl=png8''"
    and "getContentfulImageQuery [(''format'', Str ''png'')] = Inr ''fm=png''"
    by code_simp+
  moreover have "getContentfulImageQuery [(''format'', Str v)] =
     Inr (join
       ((case index_at (split v CHR ''/'') 0 of
           None \<Rightarrow> []
         | Some a \<Rightarrow> if a = '''' then [] else [''fm='' @ a])
        @ (case index_at (split v CHR ''/'') 1 of
           None \<Rightarrow> []
         | Some b \<Rightarrow> if b = '''' then [] else [''fl='' @ b])) ''&'')"
    by (simp add: getContentfulImageQuery_def entry_pairs_def transformers_def
        optionQueryKeys_def pair_of_def Let_def enumerate_eq_zip upt_rec
        split: option.splits)
  ultimately show ?thesis by simp
qed

text \<open>
  The general equation at \<open>jpg/progressive\<close>.
\<close>

theorem format_fan_out_witness:
  "getContentfulImageQuery [(''format'', Str ''jpg/progressive'')] = Inr ''fm=jpg&fl=progressive''"
proof -
  have "split ''jpg/progressive'' CHR ''/'' = [''jpg'', ''progressive'']" by code_simp
  with format_fan_out [of "''jpg/progressive''"] show ?thesis
    by (simp add: index_at_def)
qed

lemma map_entries_append:
  "map_entries f (xs @ ys) =
     (case map_entries f xs of
        Inl e \<Rightarrow> Inl e
      | Inr a \<Rightarrow> (case map_entries f ys of Inl e \<Rightarrow> Inl e | Inr b \<Rightarrow> Inr (a @ b)))"
  by (induction xs) (auto split: sum.splits)

lemma entry_pairs_nonempty: "entry_pairs entry = Inr ps \<Longrightarrow> [] \<notin> set ps"
  by (cases entry) (auto simp: entry_pairs_def Let_def split: sum.splits option.splits)

lemma map_entries_nonempty:
  "map_entries entry_pairs xs = Inr pss \<Longrightarrow> [] \<notin> set (concat pss)"
proof (induction xs arbitrary: pss)
  case Nil
  then show ?case by simp
next
  case (Cons x xs)
  then show ?case
    by (auto split: sum.splits dest: entry_pairs_nonempty)
qed

lemma join_empty_iff: "[] \<notin> set xs \<Longrightarrow> join xs sep = [] \<longleftrightarrow> xs = []"
  by (induction xs sep rule: join.induct) auto

lemma join_append:
  "xs \<noteq> [] \<Longrightarrow> ys \<noteq> [] \<Longrightarrow> join (xs @ ys) sep = join xs sep @ sep @ join ys sep"
proof (induction xs sep rule: join.induct)
  case (2 x sep)
  then show ?case by (cases ys) auto
qed auto

lemma query_pairs:
  "getContentfulImageQuery options = Inr q \<Longrightarrow>
   \<exists>pss. map_entries entry_pairs options = Inr pss \<and> q = join (concat pss) ''&''"
  by (auto simp: getContentfulImageQuery_def split: sum.splits)

lemma entry_pairs_quality_NaN: "entry_pairs (''quality'', Num NaN) = Inr [''q=NaN'']"
  by code_simp

lemma join_around:
  assumes "[] \<notin> set A" "[] \<notin> set B" "p \<noteq> []"
  shows "join (A @ [p] @ B) sep = join (filter (\<lambda>s. s \<noteq> []) [join A sep, p, join B sep]) sep"
proof -
  have mid: "join ([p] @ B) sep = (if B = [] then p else p @ sep @ join B sep)"
    by (cases B) auto
  show ?thesis
  proof (cases "A = []")
    case True
    with assms mid show ?thesis by (auto simp: join_empty_iff)
  next
    case False
    then have "join (A @ ([p] @ B)) sep = join A sep @ sep @ join ([p] @ B) sep"
      by (intro join_append) auto
    with False assms mid show ?thesis by (auto simp: join_empty_iff)
  qed
qed

text \<open>
  Claim C10. Whenever the quality option is \<open>NaN\<close>, among entries before and after it
  whose own queries are built, the query builder returns, and the query is the query of
  the entries before, the pair \<open>q=NaN\<close> and the query of the entries after, joined by
  \<open>&\<close> where they are not empty: no error and no clamp. Alone, the option gives
  \<open>q=NaN\<close>.
\<close>

theorem quality_NaN_emitted:
  "(getContentfulImageQuery before = Inr a \<and> getContentfulImageQuery after = Inr b \<longrightarrow>
      getContentfulImageQuery (before @ (''quality'', Num NaN) # after)
        = Inr (join (filter (\<lambda>s. s \<noteq> '''') [a, ''q=NaN'', b]) ''&''))
   \<and> getContentfulImageQuery [(''quality'', Num NaN)] = Inr ''q=NaN''
   \<and> contentfulImage (Str ''https://a.b.c/'') (Some [(''quality'', Num NaN)])
       = Inr ''https://a.b.c/?q=NaN''"
proof -
  have gen: "getContentfulImageQuery (before @ (''quality'', Num NaN) # after)
        = Inr (join (filter (\<lambda>s. s \<noteq> '''') [a, ''q=NaN'', b]) ''&'')"
    if a: "getContentfulImageQuery before = Inr a" and b: "getContentfulImageQuery after = Inr b"
  proof -
    from query_pairs[OF a] obtain ps where
      ps: "map_entries entry_pairs before = Inr ps" "a = join (concat ps) ''&''" by blast
    from query_pairs[OF b] obtain qs where
      qs: "map_entries entry_pairs after = Inr qs" "b = join (concat qs) ''&''" by blast
    have "map_entries entry_pairs (before @ (''quality'', Num NaN) # after)
        = Inr (ps @ [''q=NaN''] # qs)"
      using ps(1) qs(1) by (simp add: map_entries_append entry_pairs_quality_NaN)
    then have "getContentfulImageQuery (before @ (''quality'', Num NaN) # after)
        = Inr (join (concat ps @ [''q=NaN''] @ concat qs) ''&'')"
      by (simp add: getContentfulImageQuery_def)
    also have "join (concat ps @ [''q=NaN''] @ concat qs) ''&''
        = join (filter (\<lambda>s. s \<noteq> []) [a, ''q=NaN'', b]) ''&''"
      unfolding ps(2) qs(2)
      by (rule join_around) (use map_entries_nonempty[OF ps(1)] map_entries_nonempty[OF qs(1)] in auto)
    finally show ?thesis .
  qed
  have "getContentfulImageQuery [(''quality'', Num NaN)] = Inr ''q=NaN''"
    and "contentfulImage (Str ''https://a.b.c/'') (Some [(''quality'', Num NaN)])
       = Inr ''https://a.b.c/?q=NaN''"
    by code_simp+
  with gen show ?thesis by blast
qed

text \<open>
  The hypotheses hold with a width before and a format after, and with nothing after.
\<close>

theorem quality_NaN_emitted_witness:
  "getContentfulImageQuery [(''width'', Num (Finite False 1 3))] = Inr ''w=100''
   \<and> getContentfulImageQuery [(''format'', Str ''png/png8'')] = Inr ''fm=png&fl=png8''
   \<and> getContentfulImageQuery
        [(''width'', Num (Finite False 1 3)), (''quality'', Num NaN),
         (''format'', Str ''png/png8'')]
       = Inr ''w=100&q=NaN&fm=png&fl=png8''
   \<and> getContentfulImageQuery [] = Inr ''''
   \<and> getContentfulImageQuery [(''width'', Num (Finite False 1 3)), (''quality'', Num NaN)]
       = Inr ''w=100&q=NaN''"
proof -
  have w: "getContentfulImageQuery [(''width'', Num (Finite False 1 3))] = Inr ''w=100''"
    by code_simp
  have f: "getContentfulImageQuery [(''format'', Str ''png/png8'')] = Inr ''fm=png&fl=png8''"
    by code_simp
  have z: "getContentfulImageQuery [] = Inr ''''" by code_simp
  from w f z
    quality_NaN_emitted [of "[(''width'', Num (Finite False 1 3))]" "''w=100''"
      "[(''format'', Str ''png/png8'')]" "''fm=png&fl=png8''"]
    quality_NaN_emitted [of "[(''width'', Num (Finite False 1 3))]" "''w=100''" "[]" "''''"]
  show ?thesis by simp
qed

end
